theory Spec2Isabelle
  imports Main
begin

section \<open>The mutation layer of gf: returning clauses, results and link resolution\<close>

text \<open>
  A shallow embedding of the Go sources of the RETURNING support of the gf data-access
  engine: the context helpers of package \<open>gdb\<close> (\<open>gdb_core_ctx.go\<close>), the clause
  builders and \<open>DoExec\<close>/\<open>DoInsert\<close> of the pgsql and sqlite drivers, the sqlite
  \<open>Result\<close> type and the scan-and-return helpers of \<open>gdb.Model\<close>.

  Conventions.
  \<^item> A Go \<open>string\<close> is a \<open>string\<close> (a list of bytes).
  \<^item> A Go slice that the code compares with \<open>nil\<close> is a \<open>'a list option\<close>, \<open>None\<close> being
    \<open>nil\<close>; a slice of which only \<open>len\<close> and the elements are used is a \<open>'a list\<close>,
    \<open>[]\<close> standing for both \<open>nil\<close> and the empty slice.
  \<^item> \<open>int64\<close> and \<open>int\<close> are \<open>int\<close> and \<open>nat\<close>: the only arithmetic of the code is
    \<open>len\<close>, \<open>int64(len(..))\<close> and \<open>affected-1\<close> under the guard \<open>affected > 0\<close>, none of
    which can wrap.
  \<^item> A Go result pair \<open>(x, err)\<close> of which the code reads \<open>x\<close> only when \<open>err == nil\<close> is a
    sum \<open>error + 'a\<close>; the pair \<open>(int64, error)\<close> returned by the methods of
    \<open>sql.Result\<close> is kept as a pair \<open>int \<times> error option\<close>.
\<close>

subsection \<open>Strings: the functions of package strings that the drivers call\<close>

text \<open>
  \<open>strings.TrimSpace\<close> on the six ASCII white-space bytes. Go also strips the multi-byte
  encodings of the other Unicode white-space code points; the model does not, so it is
  the Go function on every string whose leading and trailing white space is ASCII.
\<close>

definition isSpace :: "char \<Rightarrow> bool" where
  "isSpace c = (c = CHR 0x09 \<or> c = CHR 0x0A \<or> c = CHR 0x0B \<or> c = CHR 0x0C \<or> c = CHR 0x0D \<or> c = CHR 0x20)"

definition TrimSpace :: "string \<Rightarrow> string" where
  "TrimSpace s = rev (dropWhile isSpace (rev (dropWhile isSpace s)))"

text \<open>
  \<open>strings.ToUpper\<close> on the ASCII letters. The drivers use it only under
  \<open>strings.HasPrefix(_, "OLD.")\<close> and \<open>"NEW."\<close>; no code point outside ASCII has one of
  the letters O, L, D, N, E, W as its upper case, so for these tests the byte-wise map
  decides as Go does.
\<close>

definition upperChar :: "char \<Rightarrow> char" where
  "upperChar c =
     (case map_of (zip ''abcdefghijklmnopqrstuvwxyz'' ''ABCDEFGHIJKLMNOPQRSTUVWXYZ'') c of
        Some u \<Rightarrow> u
      | None \<Rightarrow> c)"

definition ToUpper :: "string \<Rightarrow> string" where
  "ToUpper s = map upperChar s"

definition HasPrefix :: "string \<Rightarrow> string \<Rightarrow> bool" where
  "HasPrefix s p = (take (length p) s = p)"

fun Contains :: "string \<Rightarrow> string \<Rightarrow> bool" where
  "Contains [] sub = (sub = [])"
| "Contains (c # s) sub = (HasPrefix (c # s) sub \<or> Contains s sub)"

text \<open>\<open>strings.SplitN(s, ".", 2)\<close>: one part when \<open>s\<close> has no dot, else the text before the
  first dot and the text after it.\<close>

definition SplitN_dot_2 :: "string \<Rightarrow> string list" where
  "SplitN_dot_2 s =
     (case dropWhile (\<lambda>c. c \<noteq> CHR ''.'') s of
        [] \<Rightarrow> [s]
      | _ # rest \<Rightarrow> [takeWhile (\<lambda>c. c \<noteq> CHR ''.'') s, rest])"

text \<open>
  Modelled from the spec: \<open>gstr.Join\<close> (package \<open>text/gstr\<close>) is not among the sources. The
  clause is the comma-separated list of the fields (the builders' own comments give
  \<open>RETURNING id, name\<close>), so \<open>Join\<close> puts the separator between consecutive elements.
\<close>

fun Join :: "string list \<Rightarrow> string \<Rightarrow> string" where
  "Join [] sep = []"
| "Join [x] sep = x"
| "Join (x # y # ys) sep = x @ sep @ Join (y # ys) sep"

definition dquote :: char where
  "dquote = CHR 0x22"

definition backtick :: char where
  "backtick = CHR 0x60"

subsection \<open>Errors\<close>

datatype gcode = CodeNotSupported | CodeNotFound | CodeInternalError | CodeDriver

text \<open>\<open>gerror.NewCode(code, text)\<close>; an error of the transport or of the driver is any
  other value of the type.\<close>

datatype error = NewCode gcode string


subsection \<open>The call context (\<open>gdb_core_ctx.go\<close>)\<close>

record TableField =
  Name :: string
  Type :: string
  Key :: string

text \<open>The values the code stores in a context and reads back with a type assertion:
  a \<open>[]string\<close>, a \<open>gdb.TableField\<close>, or a value of any other type.\<close>

datatype any = AnyStrings "string list option" | AnyTableField TableField | AnyOther nat

text \<open>A \<open>context.Context\<close> is the chain of its \<open>WithValue\<close> bindings, the innermost
  first; \<open>Value\<close> returns the innermost binding of the key, \<open>nil\<close> when there is none.
  All keys of the code are of type \<open>gctx.StrKey\<close>, so a key is its string.\<close>

type_synonym Ctx = "(string \<times> any) list"

definition WithValue :: "Ctx \<Rightarrow> string \<Rightarrow> any \<Rightarrow> Ctx" where
  "WithValue ctx k v = (k, v) # ctx"

definition Value :: "Ctx \<Rightarrow> string \<Rightarrow> any option" where
  "Value ctx k = map_of ctx k"

definition ReturningKeyInCtx :: string where
  "ReturningKeyInCtx = ''ReturningFields''"

definition InjectReturning :: "Ctx \<Rightarrow> string list \<Rightarrow> Ctx" where
  "InjectReturning ctx flds =
     (if length flds = 0 then ctx
      else WithValue ctx ReturningKeyInCtx (AnyStrings (Some flds)))"

definition GetReturningFromCtx :: "Ctx \<Rightarrow> string list option" where
  "GetReturningFromCtx ctx =
     (case Value ctx ReturningKeyInCtx of
        Some (AnyStrings flds) \<Rightarrow> flds
      | _ \<Rightarrow> None)"

text \<open>\<open>len\<close> of a slice that may be \<open>nil\<close>.\<close>

definition len :: "'a list option \<Rightarrow> nat" where
  "len xs = (case xs of None \<Rightarrow> 0 | Some ys \<Rightarrow> length ys)"

subsection \<open>The clause builders (\<open>pgsql_do_exec.go\<close>, \<open>sqlite_do_exec.go\<close>)\<close>

text \<open>The body of the loop of the sqlite builder: the text appended to
  \<open>quotedFields\<close> for one field.\<close>

definition sqlite_quoteField :: "string \<Rightarrow> string" where
  "sqlite_quoteField field0 =
     (let field = TrimSpace field0 in
      if field = ''*'' then ''*''
      else [backtick] @ field @ [backtick])"

fun sqlite_quoteLoop :: "string list \<Rightarrow> string list \<Rightarrow> string list" where
  "sqlite_quoteLoop [] quotedFields = quotedFields"
| "sqlite_quoteLoop (field # flds) quotedFields =
     sqlite_quoteLoop flds (quotedFields @ [sqlite_quoteField field])"

definition sqlite_buildReturningClause :: "string list \<Rightarrow> string" where
  "sqlite_buildReturningClause flds =
     (if length flds = 0 then ''''
      else ''RETURNING '' @ Join (sqlite_quoteLoop flds []) '', '')"

text \<open>The two prefixed branches of the pgsql builder differ in the literal only.\<close>

definition pgsql_quotePrefixed :: "string \<Rightarrow> string \<Rightarrow> string" where
  "pgsql_quotePrefixed lit field =
     (let parts = SplitN_dot_2 field in
      if length parts = 2 then
        (if parts ! 1 = ''*'' then lit @ ''.*''
         else lit @ ''.'' @ [dquote] @ parts ! 1 @ [dquote])
      else [dquote] @ field @ [dquote])"

definition pgsql_quoteField :: "string \<Rightarrow> string" where
  "pgsql_quoteField field0 =
     (let field = TrimSpace field0 in
      if field = ''*'' then ''*''
      else if HasPrefix (ToUpper field) ''OLD.'' then pgsql_quotePrefixed ''OLD'' field
      else if HasPrefix (ToUpper field) ''NEW.'' then pgsql_quotePrefixed ''NEW'' field
      else [dquote] @ field @ [dquote])"

fun pgsql_quoteLoop :: "string list \<Rightarrow> string list \<Rightarrow> string list" where
  "pgsql_quoteLoop [] quotedFields = quotedFields"
| "pgsql_quoteLoop (field # flds) quotedFields =
     pgsql_quoteLoop flds (quotedFields @ [pgsql_quoteField field])"

definition pgsql_buildReturningClause :: "string list \<Rightarrow> string" where
  "pgsql_buildReturningClause flds =
     (if length flds = 0 then ''''
      else ''RETURNING '' @ Join (pgsql_quoteLoop flds []) '', '')"

subsection \<open>Links, rows and results\<close>

text \<open>A \<open>gdb.Link\<close> is a connection or a transaction handle; the code reads only
  \<open>IsTransaction()\<close>.\<close>

record Link =
  link_id :: nat
  IsTransaction :: bool

text \<open>A \<open>gdb.Record\<close> is a \<open>map[string]*gvar.Var\<close>: looking a column up gives \<open>None\<close> for
  Go's \<open>nil\<close>. A \<open>gdb.Result\<close> is a \<open>[]Record\<close>, which may be \<open>nil\<close>.\<close>

datatype Var = VInt int | VString string | VNull

type_synonym Record = "string \<rightharpoonup> Var"

type_synonym gdb_Result = "Record list option"

text \<open>A \<open>sql.Result\<close> of the underlying database driver, given by what its two methods
  return.\<close>

record NativeResult =
  native_LastInsertId :: "int \<times> error option"
  native_RowsAffected :: "int \<times> error option"

text \<open>The \<open>Result\<close> struct of the pgsql driver, with the fields that the struct literals
  of \<open>DoExec\<close> set; \<open>Result{}\<close> is \<open>pgsql_Result_zero\<close>.\<close>

record pgsql_Result =
  affected :: int
  lastInsertId :: int
  lastInsertIdError :: "error option"
  records :: gdb_Result

definition pgsql_Result_zero :: pgsql_Result where
  "pgsql_Result_zero =
     \<lparr>affected = 0, lastInsertId = 0, lastInsertIdError = None, records = None\<rparr>"

text \<open>The \<open>Result\<close> struct of the sqlite driver (\<open>sqlite_result.go\<close>): the embedded
  \<open>sql.Result\<close>, which may be \<open>nil\<close>, and the rows of the returning clause.\<close>

record sqlite_Result =
  Result :: "NativeResult option"
  sqlite_records :: gdb_Result


definition sqlite_LastInsertId :: "sqlite_Result \<Rightarrow> int \<times> error option" where
  "sqlite_LastInsertId r =
     (case Result r of
        Some n \<Rightarrow> native_LastInsertId n
      | None \<Rightarrow> (0, None))"

definition sqlite_GetRecords :: "sqlite_Result \<Rightarrow> gdb_Result" where
  "sqlite_GetRecords r = sqlite_records r"

text \<open>A value of the interface \<open>sql.Result\<close> as the drivers return it: what
  \<open>Core.DoExec\<close> returned, or a \<open>Result\<close> struct of one of the two drivers. Package
  \<open>gdb\<close> cannot name the types of the driver packages, so what \<open>Core.DoExec\<close> returns
  is neither of the two structs.\<close>

datatype sql_result =
  CoreResult NativeResult
| PgsqlResult pgsql_Result
| SqliteResult sqlite_Result

subsection \<open>The collaborators of a driver\<close>

datatype SqlType = SqlTypeQueryContext | SqlTypeExecContext

record DoCommitInput =
  in_Link :: Link
  in_Sql :: string
  in_Args :: "Var list"
  in_Stmt :: "nat option"
  in_Type :: SqlType
  in_IsTransaction :: bool

record DoCommitOutput =
  out_Result :: "NativeResult option"
  out_Records :: gdb_Result

datatype InsertOption =
  InsertOptionDefault | InsertOptionReplace | InsertOptionSave | InsertOptionIgnore

record DoInsertOption =
  opt_InsertOption :: InsertOption
  opt_Returning :: "string list"

text \<open>
  What a driver calls and the sources do not define: the methods of the embedded
  \<open>gdb.Core\<close>, \<open>gdb.TXFromCtx\<close> for the driver's group, \<open>gvar.Var.Int64\<close>, and the
  constant \<open>internalPrimaryKeyInCtx\<close> of the pgsql driver. They are parameters.
  \<open>TableFields\<close> returns a Go map; the list is the order in which the \<open>range\<close> loop of
  \<open>DoInsert\<close> visits it.
\<close>

record Driver =
  TXFromCtx :: "Ctx \<Rightarrow> Link option"
  MasterLink :: "error + Link"
  Core_DoExec :: "Ctx \<Rightarrow> Link option \<Rightarrow> string \<Rightarrow> Var list \<Rightarrow> error + NativeResult"
  FormatSqlBeforeExecuting :: "string \<Rightarrow> Var list \<Rightarrow> string \<times> Var list"
  DoFilter :: "Ctx \<Rightarrow> Link \<Rightarrow> string \<Rightarrow> Var list \<Rightarrow> error + string \<times> Var list"
  DoCommit :: "Ctx \<Rightarrow> DoCommitInput \<Rightarrow> error + DoCommitOutput"
  Int64 :: "Var \<Rightarrow> int"
  internalPrimaryKeyInCtx :: string
  TableFields :: "Ctx \<Rightarrow> string \<Rightarrow> error + TableField list"
  Core_DoInsert ::
    "Ctx \<Rightarrow> Link option \<Rightarrow> string \<Rightarrow> Record list \<Rightarrow> DoInsertOption \<Rightarrow> error + sql_result"

text \<open>The statements a call hands to the database, in order: through \<open>Core.DoExec\<close> (the
  plain exec path) or through \<open>DoCommit\<close>.\<close>

datatype event =
  EvCoreDoExec "Link option" string "Var list"
| EvDoCommit DoCommitInput

fun event_link :: "event \<Rightarrow> Link option" where
  "event_link (EvCoreDoExec l s a) = l"
| "event_link (EvDoCommit i) = Some (in_Link i)"

definition viaCore ::
  "Driver \<Rightarrow> Ctx \<Rightarrow> Link option \<Rightarrow> string \<Rightarrow> Var list \<Rightarrow> event list \<times> (error + sql_result)" where
  "viaCore d ctx link sql args =
     ([EvCoreDoExec link sql args],
      (case Core_DoExec d ctx link sql args of
         Inl err \<Rightarrow> Inl err
       | Inr n \<Rightarrow> Inr (CoreResult n)))"

subsection \<open>Link resolution\<close>

text \<open>The block \<open>// Transaction checks.\<close>, the same text in \<open>DoExec\<close> of the pgsql driver
  (\<open>pgsql_do_exec.go\<close>, lines 31 to 45) and of the sqlite driver (\<open>part_001\<close>, lines 33 to
  44).\<close>

definition resolveLink :: "Driver \<Rightarrow> Ctx \<Rightarrow> Link option \<Rightarrow> error + Link" where
  "resolveLink d ctx link =
     (case link of
        None \<Rightarrow>
          (case TXFromCtx d ctx of
             Some tx \<Rightarrow> Inr tx
           | None \<Rightarrow> MasterLink d)
      | Some l \<Rightarrow>
          (if \<not> IsTransaction l then
             (case TXFromCtx d ctx of
                Some tx \<Rightarrow> Inr tx
              | None \<Rightarrow> Inr l)
           else Inr l))"

text \<open>The tail shared by the two drivers: \<open>FormatSqlBeforeExecuting\<close>, \<open>DoFilter\<close>, then
  \<open>DoCommit\<close> as a query on the resolved link.\<close>

definition commitQuery ::
  "Driver \<Rightarrow> Ctx \<Rightarrow> Link \<Rightarrow> string \<Rightarrow> Var list \<Rightarrow> event list \<times> (error + DoCommitOutput)" where
  "commitQuery d ctx l sql args =
     (case FormatSqlBeforeExecuting d sql args of
        (sql1, args1) \<Rightarrow>
          (case DoFilter d ctx l sql1 args1 of
             Inl err \<Rightarrow> ([], Inl err)
           | Inr (sql2, args2) \<Rightarrow>
               (let inp = \<lparr>in_Link = l, in_Sql = sql2, in_Args = args2, in_Stmt = None,
                           in_Type = SqlTypeQueryContext, in_IsTransaction = IsTransaction l\<rparr>
                in ([EvDoCommit inp], DoCommit d ctx inp))))"

subsection \<open>\<open>DoExec\<close> of the pgsql driver (\<open>pgsql_do_exec.go\<close>)\<close>

text \<open>The local variables of \<open>DoExec\<close> after the block that looks for returning fields
  (lines 47 to 69): the statement, the two flags, and the primary key.\<close>

record plan =
  plan_sql :: string
  isUseCoreDoExec :: bool
  isUserReturning :: bool
  primaryKey :: string
  pkField :: TableField

definition TableField_zero :: TableField where
  "TableField_zero = \<lparr>Name = [], Type = [], Key = []\<rparr>"

definition pgsql_plan :: "Driver \<Rightarrow> Ctx \<Rightarrow> string \<Rightarrow> plan" where
  "pgsql_plan d ctx sql =
     (let returningFields = GetReturningFromCtx ctx in
      if len returningFields > 0 then
        \<lparr>plan_sql = sql @ '' '' @
           pgsql_buildReturningClause (case returningFields of None \<Rightarrow> [] | Some fs \<Rightarrow> fs),
         isUseCoreDoExec = False, isUserReturning = True,
         primaryKey = [], pkField = TableField_zero\<rparr>
      else
        (case Value ctx (internalPrimaryKeyInCtx d) of
           Some (AnyTableField pk) \<Rightarrow>
             (if Name pk \<noteq> [] \<and> Contains sql ''INSERT INTO'' then
                \<lparr>plan_sql = sql @ '' RETURNING '' @ [dquote] @ Name pk @ [dquote],
                 isUseCoreDoExec = False, isUserReturning = False,
                 primaryKey = Name pk, pkField = pk\<rparr>
              else
                \<lparr>plan_sql = sql, isUseCoreDoExec = True, isUserReturning = False,
                 primaryKey = [], pkField = pk\<rparr>)
         | Some other \<Rightarrow>
             \<lparr>plan_sql = sql, isUseCoreDoExec = True, isUserReturning = False,
              primaryKey = [], pkField = TableField_zero\<rparr>
         | None \<Rightarrow>
             \<lparr>plan_sql = sql, isUseCoreDoExec = True, isUserReturning = False,
              primaryKey = [], pkField = TableField_zero\<rparr>))"

text \<open>The \<open>Result\<close> built from the rows that \<open>DoCommit\<close> returned (lines 99 to 135).\<close>

definition pgsql_buildResult :: "Driver \<Rightarrow> plan \<Rightarrow> DoCommitOutput \<Rightarrow> pgsql_Result" where
  "pgsql_buildResult d p out =
     (let rows = (case out_Records out of None \<Rightarrow> [] | Some rs \<Rightarrow> rs);
          n = length rows
      in
      if isUserReturning p then
        \<lparr>affected = int n, lastInsertId = 0,
         lastInsertIdError = Some (NewCode CodeNotSupported
           ''LastInsertId is not supported when using custom RETURNING clause''),
         records = out_Records out\<rparr>
      else if n > 0 then
        (if \<not> Contains (Type (pkField p)) ''int'' then
           \<lparr>affected = int n, lastInsertId = 0,
            lastInsertIdError = Some (NewCode CodeNotSupported
              (''LastInsertId is not supported by primary key type: '' @ Type (pkField p))),
            records = None\<rparr>
         else
           (case (rows ! (n - 1)) (primaryKey p) of
              Some v \<Rightarrow>
                \<lparr>affected = int n, lastInsertId = Int64 d v,
                 lastInsertIdError = None, records = None\<rparr>
            | None \<Rightarrow> pgsql_Result_zero))
      else pgsql_Result_zero)"

definition pgsql_DoExec ::
  "Driver \<Rightarrow> Ctx \<Rightarrow> Link option \<Rightarrow> string \<Rightarrow> Var list \<Rightarrow> event list \<times> (error + sql_result)" where
  "pgsql_DoExec d ctx link sql args =
     (case resolveLink d ctx link of
        Inl err \<Rightarrow> ([], Inl err)
      | Inr l \<Rightarrow>
          (let p = pgsql_plan d ctx sql in
           if isUseCoreDoExec p then viaCore d ctx (Some l) (plan_sql p) args
           else
             (case commitQuery d ctx l (plan_sql p) args of
                (evs, Inl err) \<Rightarrow> (evs, Inl err)
              | (evs, Inr out) \<Rightarrow> (evs, Inr (PgsqlResult (pgsql_buildResult d p out))))))"

text \<open>The automatic primary-key fallback is the branch of lines 60 to 64: no returning
  fields of the caller, and the statement sent is the caller's with the primary key as
  its returning clause.\<close>

definition fallbackApplied :: "Driver \<Rightarrow> Ctx \<Rightarrow> string \<Rightarrow> bool" where
  "fallbackApplied d ctx sql =
     (\<not> isUseCoreDoExec (pgsql_plan d ctx sql) \<and> \<not> isUserReturning (pgsql_plan d ctx sql))"

subsection \<open>\<open>DoInsert\<close> of the pgsql driver (\<open>pgsql_do_insert.go\<close>)\<close>

text \<open>The loop of lines 32 to 38: the first field in iteration order whose key is \<open>pri\<close>.\<close>

fun firstPrimary :: "TableField list \<Rightarrow> TableField option" where
  "firstPrimary [] = None"
| "firstPrimary (field # rest) = (if Key field = ''pri'' then Some field else firstPrimary rest)"

text \<open>The context that \<open>DoInsert\<close> hands to \<open>Core.DoInsert\<close>, or the error of the
  \<open>Replace\<close> case.\<close>

definition pgsql_DoInsert_ctx :: "Driver \<Rightarrow> Ctx \<Rightarrow> string \<Rightarrow> DoInsertOption \<Rightarrow> error + Ctx" where
  "pgsql_DoInsert_ctx d ctx table option =
     (case opt_InsertOption option of
        InsertOptionReplace \<Rightarrow>
          Inl (NewCode CodeNotSupported ''Replace operation is not supported by pgsql driver'')
      | other \<Rightarrow>
          (let ctx1 =
             (if other = InsertOptionDefault \<and> length (opt_Returning option) = 0 then
                (case TableFields d ctx table of
                   Inr tableFields \<Rightarrow>
                     (case firstPrimary tableFields of
                        Some field \<Rightarrow> WithValue ctx (internalPrimaryKeyInCtx d) (AnyTableField field)
                      | None \<Rightarrow> ctx)
                 | Inl err \<Rightarrow> ctx)
              else ctx)
           in
           Inr (if length (opt_Returning option) > 0
                then InjectReturning ctx1 (opt_Returning option) else ctx1)))"

definition pgsql_DoInsert ::
  "Driver \<Rightarrow> Ctx \<Rightarrow> Link option \<Rightarrow> string \<Rightarrow> Record list \<Rightarrow> DoInsertOption \<Rightarrow> error + sql_result" where
  "pgsql_DoInsert d ctx link table list option =
     (case pgsql_DoInsert_ctx d ctx table option of
        Inl err \<Rightarrow> Inl err
      | Inr ctx1 \<Rightarrow> Core_DoInsert d ctx1 link table list option)"

subsection \<open>\<open>DoExec\<close> and \<open>DoInsert\<close> of the sqlite driver\<close>

definition internalReturningInCtx :: string where
  "internalReturningInCtx = ''returning_fields''"

text \<open>\<open>sqlite_do_exec.go\<close>: the clause is appended and the statement goes to
  \<open>Core.DoExec\<close>.\<close>

definition sqlite_DoExec ::
  "Driver \<Rightarrow> Ctx \<Rightarrow> Link option \<Rightarrow> string \<Rightarrow> Var list \<Rightarrow> event list \<times> (error + sql_result)" where
  "sqlite_DoExec d ctx link sql args =
     (let sql1 =
        (case Value ctx internalReturningInCtx of
           Some (AnyStrings (Some fs)) \<Rightarrow>
             (if length fs > 0 then sql @ '' '' @ sqlite_buildReturningClause fs else sql)
         | _ \<Rightarrow> sql)
      in viaCore d ctx link sql1 args)"

text \<open>\<open>part_001\<close>, second file: the same with the fields read by
  \<open>gdb.GetReturningFromCtx\<close>.\<close>

definition sqlite_DoExec_append ::
  "Driver \<Rightarrow> Ctx \<Rightarrow> Link option \<Rightarrow> string \<Rightarrow> Var list \<Rightarrow> event list \<times> (error + sql_result)" where
  "sqlite_DoExec_append d ctx link sql args =
     (let sql1 =
        (case GetReturningFromCtx ctx of
           Some fs \<Rightarrow>
             (if length fs > 0 then sql @ '' '' @ sqlite_buildReturningClause fs else sql)
         | None \<Rightarrow> sql)
      in viaCore d ctx link sql1 args)"

text \<open>\<open>part_001\<close>, first file: without returning fields the call goes to \<open>Core.DoExec\<close>
  as it came; with them the statement is run as a query and the rows are kept.\<close>

definition sqlite_DoExec_query ::
  "Driver \<Rightarrow> Ctx \<Rightarrow> Link option \<Rightarrow> string \<Rightarrow> Var list \<Rightarrow> event list \<times> (error + sql_result)" where
  "sqlite_DoExec_query d ctx link sql args =
     (case GetReturningFromCtx ctx of
        None \<Rightarrow> viaCore d ctx link sql args
      | Some fs \<Rightarrow>
          (if length fs = 0 then viaCore d ctx link sql args
           else
             (let sql1 = sql @ '' '' @ sqlite_buildReturningClause fs in
              case resolveLink d ctx link of
                Inl err \<Rightarrow> ([], Inl err)
              | Inr l \<Rightarrow>
                  (case commitQuery d ctx l sql1 args of
                     (evs, Inl err) \<Rightarrow> (evs, Inl err)
                   | (evs, Inr out) \<Rightarrow>
                       (evs, Inr (SqliteResult
                          \<lparr>Result = out_Result out, sqlite_records = out_Records out\<rparr>))))))"

text \<open>\<open>sqlite_do_insert.go\<close> and \<open>part_002\<close>: the context handed to \<open>Core.DoInsert\<close>.\<close>

definition sqlite_DoInsert_ctx :: "Ctx \<Rightarrow> DoInsertOption \<Rightarrow> Ctx" where
  "sqlite_DoInsert_ctx ctx option =
     (if length (opt_Returning option) > 0 then InjectReturning ctx (opt_Returning option)
      else ctx)"

definition sqlite_DoInsert_ctx_internal :: "Ctx \<Rightarrow> DoInsertOption \<Rightarrow> Ctx" where
  "sqlite_DoInsert_ctx_internal ctx option =
     (if length (opt_Returning option) > 0
      then WithValue ctx internalReturningInCtx (AnyStrings (Some (opt_Returning option)))
      else ctx)"

subsection \<open>The model API: \<open>Returning\<close> and the scan-and-return helpers\<close>

text \<open>Of a \<open>gdb.Model\<close> the sources set one field, \<open>returning\<close>; \<open>getModel\<close> gives the
  model to change.\<close>

record Model =
  returning :: "string list"


definition ReturningAll :: "Model \<Rightarrow> Model" where
  "ReturningAll m = m\<lparr>returning := [''*'']\<rparr>"

text \<open>The methods of \<open>Model\<close> and of \<open>gdb.Result\<close> that the helpers call and the sources do
  not define. What a mutation returns depends on the driver of the dialect, so the
  mutations are parameters.\<close>

record ModelOps =
  Data :: "Model \<Rightarrow> Var list \<Rightarrow> Model"
  Where :: "Model \<Rightarrow> Var \<Rightarrow> Var list \<Rightarrow> Model"
  Insert :: "Model \<Rightarrow> error + sql_result"
  InsertIgnore :: "Model \<Rightarrow> error + sql_result"
  Save :: "Model \<Rightarrow> error + sql_result"
  Replace :: "Model \<Rightarrow> error + sql_result"
  Update :: "Model \<Rightarrow> error + sql_result"
  Delete :: "Model \<Rightarrow> error + sql_result"
  Structs :: "Record list \<Rightarrow> error option"

text \<open>\<open>SqlResultToReturning\<close> (\<open>part_004\<close>) is the type assertion to \<open>ReturningResult\<close>:
  it succeeds on the \<open>Result\<close> structs of the two drivers, which have \<open>GetRecords\<close>, and
  gives \<open>nil\<close> on the plain result of \<open>Core.DoExec\<close>, which has not.\<close>

fun SqlResultToReturning :: "sql_result \<Rightarrow> sql_result option" where
  "SqlResultToReturning (CoreResult n) = None"
| "SqlResultToReturning (PgsqlResult r) = Some (PgsqlResult r)"
| "SqlResultToReturning (SqliteResult r) = Some (SqliteResult r)"

text \<open>
  Modelled from the spec: \<open>GetRecords\<close> of the pgsql \<open>Result\<close> is not among the sources.
  By section 4.3 it returns the attached record set or the absent marker, which is the
  field \<open>records\<close> (the comment of \<open>DoExec\<close> says the same). The helpers call
  \<open>GetRecords\<close> only on what \<open>SqlResultToReturning\<close> let through, so the first
  equation is never used by them.
\<close>

fun GetRecords :: "sql_result \<Rightarrow> gdb_Result" where
  "GetRecords (CoreResult n) = None"
| "GetRecords (PgsqlResult r) = records r"
| "GetRecords (SqliteResult r) = sqlite_GetRecords r"

text \<open>The tail of the three helpers: from the outcome of the mutation to the error the
  helper returns (\<open>None\<close> is Go's \<open>nil\<close>).\<close>

definition scanReturning ::
  "ModelOps \<Rightarrow> string \<Rightarrow> error + sql_result \<Rightarrow> error option" where
  "scanReturning ops notSupportedText outcome =
     (case outcome of
        Inl err \<Rightarrow> Some err
      | Inr result \<Rightarrow>
          (case SqlResultToReturning result of
             None \<Rightarrow> Some (NewCode CodeNotSupported notSupportedText)
           | Some rr \<Rightarrow>
               (case GetRecords rr of
                  None \<Rightarrow> Some (NewCode CodeNotFound ''no records returned from RETURNING clause'')
                | Some rs \<Rightarrow>
                    (if length rs = 0
                     then Some (NewCode CodeNotFound ''no records returned from RETURNING clause'')
                     else Structs ops rs))))"

text \<open>\<open>InsertOption\<close> has the four constants as its values, so the \<open>default\<close> branch of
  the \<open>switch\<close> of \<open>doInsertAndScan\<close>, which runs \<open>Insert\<close>, is not reached.\<close>

definition doInsertAndScan :: "ModelOps \<Rightarrow> Model \<Rightarrow> InsertOption \<Rightarrow> Var list \<Rightarrow> error option" where
  "doInsertAndScan ops m insertOption data =
     (let model0 = ReturningAll m;
          model = (if length data > 0 then Data ops model0 data else model0);
          outcome =
            (case insertOption of
               InsertOptionDefault \<Rightarrow> Insert ops model
             | InsertOptionIgnore \<Rightarrow> InsertIgnore ops model
             | InsertOptionSave \<Rightarrow> Save ops model
             | InsertOptionReplace \<Rightarrow> Replace ops model)
      in scanReturning ops
           (''InsertAndScan is not supported by current database driver, '' @
            ''it requires database support for RETURNING clause (PostgreSQL, SQLite 3.35+, SQL Server, MariaDB 10.5+, DaMeng)'')
           outcome)"

definition InsertAndScan :: "ModelOps \<Rightarrow> Model \<Rightarrow> Var list \<Rightarrow> error option" where
  "InsertAndScan ops m data = doInsertAndScan ops m InsertOptionDefault data"




subsection \<open>The Materializer\<close>

text \<open>
  Modelled from the spec: \<open>ScanList\<close>, the Materializer, is not among the sources; only its
  tests are (\<open>Test_ScanList_NoRecreate_SliceAttribute_Ptr\<close>). The definitions follow section
  4.4. A destination element maps an attribute name to what is bound there, \<open>None\<close>
  being the zero value; a relation-binding descriptor names the attribute to populate,
  the cardinality, the attribute that holds the parent row and the correlation key pair.
\<close>

datatype attribute = One Record | Many "Record list"

type_synonym element = "string \<rightharpoonup> attribute"

datatype cardinality = CardOne | CardMany

record binding =
  bindToAttr :: string
  card :: cardinality
  relationAttr :: string
  childKey :: string
  parentKey :: string

text \<open>Steps 1 and 2: the rows of the related record set whose child column holds the
  correlation-key value of the element, in the order of the record set.\<close>

definition relatedRows :: "binding \<Rightarrow> Record list \<Rightarrow> element \<Rightarrow> Record list" where
  "relatedRows b rows e =
     (case e (relationAttr b) of
        Some (One parent) \<Rightarrow>
          (case parent (parentKey b) of
             Some key \<Rightarrow> filter (\<lambda>r. r (childKey b) = Some key) rows
           | None \<Rightarrow> [])
      | _ \<Rightarrow> [])"

text \<open>Steps 3 and 4, on the existing element (step 5).\<close>

definition bindElement :: "binding \<Rightarrow> Record list \<Rightarrow> element \<Rightarrow> element" where
  "bindElement b rows e =
     (case card b of
        CardMany \<Rightarrow> e(bindToAttr b \<mapsto> Many (relatedRows b rows e))
      | CardOne \<Rightarrow>
          (case relatedRows b rows e of
             [] \<Rightarrow> e
           | r # rest \<Rightarrow> e(bindToAttr b \<mapsto> One r)))"

definition ScanList :: "element list \<Rightarrow> Record list \<Rightarrow> binding \<Rightarrow> element list" where
  "ScanList dest rows b = map (bindElement b rows) dest"

text \<open>The first call of the test, on an empty destination: one element for each row,
  with the row bound to the attribute.\<close>

definition ScanList_create :: "Record list \<Rightarrow> string \<Rightarrow> element list" where
  "ScanList_create rows attr = map (\<lambda>r. [attr \<mapsto> One r]) rows"

subsection \<open>The statements of the specification, for comparison\<close>

text \<open>The clause as the specification words it: the wildcard marker passed through,
  every other field between two quote characters, the fields separated by commas.\<close>

definition claimedField :: "char \<Rightarrow> string \<Rightarrow> string" where
  "claimedField q f = (if f = ''*'' then ''*'' else [q] @ f @ [q])"

definition claimedClause :: "char \<Rightarrow> string list \<Rightarrow> string" where
  "claimedClause q flds =
     (if flds = [] then [] else ''RETURNING '' @ Join (map (claimedField q) flds) '', '')"



text \<open>The three conditions that the specification gives for the automatic primary-key
  fallback: no returning fields requested, an insert, and exactly one primary-key column,
  of an integer type.\<close>

definition claimedFallback :: "string list \<Rightarrow> bool \<Rightarrow> TableField list \<Rightarrow> bool" where
  "claimedFallback requested isInsert tableFields =
     (requested = [] \<and> isInsert \<and>
      (case filter (\<lambda>f. Key f = ''pri'') tableFields of
         [pk] \<Rightarrow> Contains (Type pk) ''int''
       | _ \<Rightarrow> False))"

subsection \<open>Values for the examples\<close>

definition exTx :: Link where
  "exTx = \<lparr>link_id = 1, IsTransaction = True\<rparr>"

definition exMaster :: Link where
  "exMaster = \<lparr>link_id = 0, IsTransaction = False\<rparr>"

definition exNative :: NativeResult where
  "exNative = \<lparr>native_LastInsertId = (5, None), native_RowsAffected = (1, None)\<rparr>"

definition exUuidKey :: TableField where
  "exUuidKey = \<lparr>Name = ''id'', Type = ''varchar(36)'', Key = ''pri''\<rparr>"

definition exInsert :: string where
  "exInsert = ''INSERT INTO t(id) VALUES(?)''"

text \<open>A driver whose context holds the transaction \<open>tx\<close>, whose queries return \<open>out\<close> and
  whose table has the fields \<open>tfs\<close>; formatting and filtering leave the statement as it
  is.\<close>

definition exDriver :: "Link option \<Rightarrow> DoCommitOutput \<Rightarrow> TableField list \<Rightarrow> Driver" where
  "exDriver tx out tfs =
     \<lparr>TXFromCtx = (\<lambda>ctx. tx),
      MasterLink = Inr exMaster,
      Core_DoExec = (\<lambda>ctx link sql args. Inr exNative),
      FormatSqlBeforeExecuting = (\<lambda>sql args. (sql, args)),
      DoFilter = (\<lambda>ctx link sql args. Inr (sql, args)),
      DoCommit = (\<lambda>ctx inp. Inr out),
      Int64 = (\<lambda>v. case v of VInt i \<Rightarrow> i | _ \<Rightarrow> 0),
      internalPrimaryKeyInCtx = ''primary_key'',
      TableFields = (\<lambda>ctx table. Inr tfs),
      Core_DoInsert = (\<lambda>ctx link table list option. Inr (CoreResult exNative))\<rparr>"

definition exRow :: Record where
  "exRow = [''id'' \<mapsto> VString ''a1'']"

definition exOut :: DoCommitOutput where
  "exOut = \<lparr>out_Result = None, out_Records = Some [exRow]\<rparr>"


text \<open>The rows of \<open>Test_ScanList_NoRecreate_SliceAttribute_Ptr\<close> and the bindings
  \<open>("Many", "One", "pid:Id")\<close> and \<open>("One", "One", "id:Id")\<close>.\<close>

definition john :: Record where
  "john = [''id'' \<mapsto> VInt 1, ''name'' \<mapsto> VString ''john'', ''age'' \<mapsto> VInt 16]"

definition smith :: Record where
  "smith = [''id'' \<mapsto> VInt 2, ''name'' \<mapsto> VString ''smith'', ''age'' \<mapsto> VInt 18]"

definition child100 :: Record where
  "child100 = [''id'' \<mapsto> VInt 100, ''pid'' \<mapsto> VInt 1, ''age'' \<mapsto> VInt 30,
               ''name'' \<mapsto> VString ''john'']"

definition child200 :: Record where
  "child200 = [''id'' \<mapsto> VInt 200, ''pid'' \<mapsto> VInt 1, ''age'' \<mapsto> VInt 31,
               ''name'' \<mapsto> VString ''smith'']"

definition bindMany :: binding where
  "bindMany = \<lparr>bindToAttr = ''Many'', card = CardMany, relationAttr = ''One'',
               childKey = ''pid'', parentKey = ''id''\<rparr>"

definition bindOne :: binding where
  "bindOne = \<lparr>bindToAttr = ''One'', card = CardOne, relationAttr = ''One'',
              childKey = ''id'', parentKey = ''id''\<rparr>"

section \<open>Properties\<close>

subsection \<open>The context helpers\<close>

lemma GetReturningFromCtx_InjectReturning:
  "flds \<noteq> [] \<Longrightarrow> GetReturningFromCtx (InjectReturning ctx flds) = Some flds"
  by (simp add: GetReturningFromCtx_def InjectReturning_def WithValue_def Value_def)

text \<open>
  C10. Reading back what \<open>InjectReturning\<close> stored gives the stored field list, for every
  context and every non-empty list; injecting the empty list leaves the context as it
  is; and \<open>GetReturningFromCtx\<close> gives \<open>nil\<close> on a context that holds no field list under
  the key. The function has no error result.
\<close>

theorem GetReturningFromCtx_right_inverse:
  "(flds \<noteq> [] \<longrightarrow> GetReturningFromCtx (InjectReturning ctx flds) = Some flds) \<and>
   InjectReturning ctx [] = ctx \<and>
   ((\<forall>fs. Value ctx ReturningKeyInCtx \<noteq> Some (AnyStrings fs)) \<longrightarrow>
      GetReturningFromCtx ctx = None)"
proof (intro conjI impI)
  assume "flds \<noteq> []"
  then show "GetReturningFromCtx (InjectReturning ctx flds) = Some flds"
    by (rule GetReturningFromCtx_InjectReturning)
next
  show "InjectReturning ctx [] = ctx"
    by (simp add: InjectReturning_def)
next
  assume none: "\<forall>fs. Value ctx ReturningKeyInCtx \<noteq> Some (AnyStrings fs)"
  show "GetReturningFromCtx ctx = None"
  proof (cases "Value ctx ReturningKeyInCtx")
    case None
    then show ?thesis by (simp add: GetReturningFromCtx_def)
  next
    case (Some v)
    with none show ?thesis
      by (cases v) (simp_all add: GetReturningFromCtx_def)
  qed
qed

theorem GetReturningFromCtx_right_inverse_witness:
  "[''id'', ''name''] \<noteq> [] \<and>
   GetReturningFromCtx (InjectReturning [(''IgnoreResult'', AnyOther 1)] [''id'', ''name''])
     = Some [''id'', ''name''] \<and>
   (\<forall>fs. Value [(''IgnoreResult'', AnyOther 1)] ReturningKeyInCtx \<noteq> Some (AnyStrings fs)) \<and>
   GetReturningFromCtx [(''IgnoreResult'', AnyOther 1)] = None"
  using GetReturningFromCtx_right_inverse
          [of "[''id'', ''name'']" "[(''IgnoreResult'', AnyOther 1)]"]
  by (simp add: Value_def ReturningKeyInCtx_def)

subsection \<open>The clause builders\<close>

lemma sqlite_quoteLoop_map: "sqlite_quoteLoop flds acc = acc @ map sqlite_quoteField flds"
  by (induction flds arbitrary: acc) simp_all









lemma sqlite_quoteField_eq: "sqlite_quoteField = (\<lambda>f. claimedField backtick (TrimSpace f))"
  unfolding sqlite_quoteField_def claimedField_def by (rule ext) (simp add: Let_def)


lemma sqlite_buildReturningClause_eq:
  "sqlite_buildReturningClause flds = claimedClause backtick (map TrimSpace flds)"
  by (simp add: sqlite_buildReturningClause_def claimedClause_def sqlite_quoteLoop_map
      sqlite_quoteField_eq comp_def)





subsection \<open>Results and the rows attached to them\<close>


lemma pgsql_plan_user_returning:
  assumes "GetReturningFromCtx ctx = Some fs" and "fs \<noteq> []"
  shows "pgsql_plan d ctx sql =
           \<lparr>plan_sql = sql @ '' '' @ pgsql_buildReturningClause fs,
            isUseCoreDoExec = False, isUserReturning = True,
            primaryKey = [], pkField = TableField_zero\<rparr>"
  using assms by (simp add: pgsql_plan_def len_def Let_def)





text \<open>What the two drivers do with returning fields of the caller, when the link resolves
  and the query succeeds: one query through \<open>DoCommit\<close>, the rows attached.\<close>

lemma pgsql_DoExec_user_returning:
  assumes fs: "GetReturningFromCtx ctx = Some fs" "fs \<noteq> []"
      and l: "resolveLink d ctx link = Inr l"
      and c: "commitQuery d ctx l (sql @ '' '' @ pgsql_buildReturningClause fs) args = (evs, Inr out)"
  shows "pgsql_DoExec d ctx link sql args =
           (evs, Inr (PgsqlResult
              \<lparr>affected = int (len (out_Records out)), lastInsertId = 0,
               lastInsertIdError = Some (NewCode CodeNotSupported
                 ''LastInsertId is not supported when using custom RETURNING clause''),
               records = out_Records out\<rparr>))"
  using l c
  by (simp add: pgsql_DoExec_def pgsql_plan_user_returning [OF fs] pgsql_buildResult_def
      Let_def len_def split: option.splits)

lemma sqlite_DoExec_query_user_returning:
  assumes fs: "GetReturningFromCtx ctx = Some fs" "fs \<noteq> []"
      and l: "resolveLink d ctx link = Inr l"
      and c: "commitQuery d ctx l (sql @ '' '' @ sqlite_buildReturningClause fs) args = (evs, Inr out)"
  shows "sqlite_DoExec_query d ctx link sql args =
           (evs, Inr (SqliteResult \<lparr>Result = out_Result out, sqlite_records = out_Records out\<rparr>))"
  using fs l c by (simp add: sqlite_DoExec_query_def Let_def)

lemma commitQuery_events:
  assumes "commitQuery d ctx l sql args = (evs, res)"
  shows "evs = [] \<or> (\<exists>inp. evs = [EvDoCommit inp] \<and> in_Link inp = l \<and>
           in_Type inp = SqlTypeQueryContext \<and> res = DoCommit d ctx inp)"
  using assms
  by (auto simp: commitQuery_def Let_def split: prod.splits sum.splits)

lemma sqlite_DoExec_to_core:
  "\<exists>sql1. sqlite_DoExec d ctx link sql args = viaCore d ctx link sql1 args \<and>
          sqlite_DoExec_append d ctx link sql args
            = viaCore d ctx link
                (case GetReturningFromCtx ctx of
                   Some fs \<Rightarrow> if fs = [] then sql else sql @ '' '' @ sqlite_buildReturningClause fs
                 | None \<Rightarrow> sql) args"
  by (auto simp: sqlite_DoExec_def sqlite_DoExec_append_def Let_def split: option.splits)

text \<open>
  C4 at the failing input. \<open>DoExec\<close> of \<open>sqlite_do_exec.go\<close>, called with the context in
  which \<open>DoInsert\<close> of \<open>part_002\<close> stored the returning field \<open>id\<close>: the clause is
  appended, the statement is handed to \<open>Core.DoExec\<close> and not run as a query, and the
  result is not a \<open>ReturningResult\<close>, so it carries no rows.
\<close>

theorem sqlite_DoExec_returning_not_queried:
  "sqlite_DoExec (exDriver None exOut [])
      (sqlite_DoInsert_ctx_internal []
         \<lparr>opt_InsertOption = InsertOptionDefault, opt_Returning = [''id'']\<rparr>)
      None exInsert [] =
     ([EvCoreDoExec None (exInsert @ '' RETURNING '' @ [backtick] @ ''id'' @ [backtick]) []],
      Inr (CoreResult exNative)) \<and>
   SqlResultToReturning (CoreResult exNative) = None"
  by (simp add: sqlite_DoExec_def sqlite_DoInsert_ctx_internal_def WithValue_def Value_def
      viaCore_def exDriver_def sqlite_buildReturningClause_eq claimedClause_def claimedField_def
      TrimSpace_def isSpace_def)

text \<open>
  C5 at the failing input. \<open>DoExec\<close> of the sqlite driver (\<open>part_001\<close>) with the
  returning field \<open>id\<close>, the query returning one row and no driver result: \<open>LastInsertId\<close> of
  the \<open>Result\<close> it produces is zero with no error.
\<close>

theorem sqlite_LastInsertId_after_returning:
  "snd (sqlite_DoExec_query (exDriver None exOut []) (InjectReturning [] [''id''])
          None exInsert [])
     = Inr (SqliteResult \<lparr>Result = None, sqlite_records = Some [exRow]\<rparr>) \<and>
   sqlite_LastInsertId \<lparr>Result = None, sqlite_records = Some [exRow]\<rparr> = (0, None)"
  by (simp add: sqlite_DoExec_query_def GetReturningFromCtx_InjectReturning resolveLink_def
      exDriver_def commitQuery_def exOut_def sqlite_LastInsertId_def Let_def)

subsection \<open>Link resolution\<close>

lemma viaCore_events: "fst (viaCore d ctx link sql args) = [EvCoreDoExec link sql args]"
  by (simp add: viaCore_def)

lemma commitQuery_links:
  "length (fst (commitQuery d ctx l sql args)) \<le> 1 \<and>
   (\<forall>ev \<in> set (fst (commitQuery d ctx l sql args)). event_link ev = Some l)"
  by (auto simp: commitQuery_def Let_def split: prod.splits sum.splits)

lemma pgsql_DoExec_events:
  "fst (pgsql_DoExec d ctx link sql args) =
     (case resolveLink d ctx link of
        Inl err \<Rightarrow> []
      | Inr l \<Rightarrow>
          (if isUseCoreDoExec (pgsql_plan d ctx sql)
           then [EvCoreDoExec (Some l) (plan_sql (pgsql_plan d ctx sql)) args]
           else fst (commitQuery d ctx l (plan_sql (pgsql_plan d ctx sql)) args)))"
  by (auto simp: pgsql_DoExec_def Let_def viaCore_events split: sum.splits prod.splits)

lemma sqlite_DoExec_query_events:
  assumes "GetReturningFromCtx ctx = Some fs" and "fs \<noteq> []"
  shows "fst (sqlite_DoExec_query d ctx link sql args) =
     (case resolveLink d ctx link of
        Inl err \<Rightarrow> []
      | Inr l \<Rightarrow> fst (commitQuery d ctx l (sql @ '' '' @ sqlite_buildReturningClause fs) args))"
  using assms
  by (auto simp: sqlite_DoExec_query_def Let_def split: sum.splits prod.splits)

text \<open>
  C7. Without a supplied link the transaction of the context is used when there is one,
  and the master link otherwise; a supplied link that is a transaction stays. \<open>DoExec\<close> of
  the pgsql driver, and \<open>DoExec\<close> of the sqlite driver (\<open>part_001\<close>) when it runs the
  statement itself, resolve the link before anything is sent: when the resolution fails
  nothing is sent and its error is returned, and otherwise at most one statement is sent,
  on the resolved link.
\<close>

theorem link_resolution:
  "(link = None \<and> TXFromCtx d ctx = Some tx \<longrightarrow> resolveLink d ctx link = Inr tx) \<and>
   (link = None \<and> TXFromCtx d ctx = None \<longrightarrow> resolveLink d ctx link = MasterLink d) \<and>
   (link = Some l \<and> IsTransaction l \<longrightarrow> resolveLink d ctx link = Inr l) \<and>
   (resolveLink d ctx link = Inl err \<longrightarrow> pgsql_DoExec d ctx link sql args = ([], Inl err)) \<and>
   (resolveLink d ctx link = Inr r \<longrightarrow>
      length (fst (pgsql_DoExec d ctx link sql args)) \<le> 1 \<and>
      (\<forall>ev \<in> set (fst (pgsql_DoExec d ctx link sql args)). event_link ev = Some r)) \<and>
   (GetReturningFromCtx ctx = Some fs \<and> fs \<noteq> [] \<and> resolveLink d ctx link = Inl err \<longrightarrow>
      sqlite_DoExec_query d ctx link sql args = ([], Inl err)) \<and>
   (GetReturningFromCtx ctx = Some fs \<and> fs \<noteq> [] \<and> resolveLink d ctx link = Inr r \<longrightarrow>
      length (fst (sqlite_DoExec_query d ctx link sql args)) \<le> 1 \<and>
      (\<forall>ev \<in> set (fst (sqlite_DoExec_query d ctx link sql args)). event_link ev = Some r))"
proof (intro conjI impI)
  assume "link = None \<and> TXFromCtx d ctx = Some tx"
  then show "resolveLink d ctx link = Inr tx" by (simp add: resolveLink_def)
next
  assume "link = None \<and> TXFromCtx d ctx = None"
  then show "resolveLink d ctx link = MasterLink d" by (simp add: resolveLink_def)
next
  assume "link = Some l \<and> IsTransaction l"
  then show "resolveLink d ctx link = Inr l" by (simp add: resolveLink_def)
next
  assume "resolveLink d ctx link = Inl err"
  then show "pgsql_DoExec d ctx link sql args = ([], Inl err)" by (simp add: pgsql_DoExec_def)
next
  assume r: "resolveLink d ctx link = Inr r"
  show "length (fst (pgsql_DoExec d ctx link sql args)) \<le> 1"
    using r commitQuery_links by (simp add: pgsql_DoExec_events)
  show "\<forall>ev \<in> set (fst (pgsql_DoExec d ctx link sql args)). event_link ev = Some r"
    using r commitQuery_links by (simp add: pgsql_DoExec_events)
next
  assume "GetReturningFromCtx ctx = Some fs \<and> fs \<noteq> [] \<and> resolveLink d ctx link = Inl err"
  then show "sqlite_DoExec_query d ctx link sql args = ([], Inl err)"
    by (simp add: sqlite_DoExec_query_def Let_def)
next
  assume a: "GetReturningFromCtx ctx = Some fs \<and> fs \<noteq> [] \<and> resolveLink d ctx link = Inr r"
  then have ev: "fst (sqlite_DoExec_query d ctx link sql args)
                   = fst (commitQuery d ctx r (sql @ '' '' @ sqlite_buildReturningClause fs) args)"
    by (simp add: sqlite_DoExec_query_events)
  show "length (fst (sqlite_DoExec_query d ctx link sql args)) \<le> 1"
    unfolding ev using commitQuery_links by blast
  show "\<forall>ev \<in> set (fst (sqlite_DoExec_query d ctx link sql args)). event_link ev = Some r"
    unfolding ev using commitQuery_links by blast
qed

theorem link_resolution_witness:
  "resolveLink (exDriver (Some exTx) exOut []) [] None = Inr exTx \<and>
   resolveLink (exDriver None exOut []) [] None = Inr exMaster \<and>
   resolveLink (exDriver (Some exTx) exOut []) [] (Some \<lparr>link_id = 2, IsTransaction = True\<rparr>)
     = Inr \<lparr>link_id = 2, IsTransaction = True\<rparr> \<and>
   map event_link
     (fst (pgsql_DoExec (exDriver (Some exTx) exOut []) (InjectReturning [] [''id'']) None exInsert []))
     = [Some exTx] \<and>
   map event_link
     (fst (sqlite_DoExec_query (exDriver None exOut []) (InjectReturning [] [''id'']) None exInsert []))
     = [Some exMaster]"
proof -
  have a: "resolveLink (exDriver (Some exTx) exOut []) [] None = Inr exTx"
    using link_resolution [where link = None and d = "exDriver (Some exTx) exOut []"
                             and ctx = "[]" and tx = exTx]
    by (simp add: exDriver_def)
  have b: "resolveLink (exDriver None exOut []) [] None = Inr exMaster"
    using link_resolution [where link = None and d = "exDriver None exOut []" and ctx = "[]"]
    by (simp add: exDriver_def)
  have c: "resolveLink (exDriver (Some exTx) exOut []) [] (Some \<lparr>link_id = 2, IsTransaction = True\<rparr>)
             = Inr \<lparr>link_id = 2, IsTransaction = True\<rparr>"
    using link_resolution [where link = "Some \<lparr>link_id = 2, IsTransaction = True\<rparr>"
                             and d = "exDriver (Some exTx) exOut []" and ctx = "[]"
                             and l = "\<lparr>link_id = 2, IsTransaction = True\<rparr>"]
    by simp
  have d: "map event_link
     (fst (pgsql_DoExec (exDriver (Some exTx) exOut []) (InjectReturning [] [''id'']) None exInsert []))
     = [Some exTx]"
    by (simp add: pgsql_DoExec_events resolveLink_def exDriver_def commitQuery_def
        pgsql_plan_user_returning [OF GetReturningFromCtx_InjectReturning] Let_def)
  have e: "map event_link
     (fst (sqlite_DoExec_query (exDriver None exOut []) (InjectReturning [] [''id'']) None exInsert []))
     = [Some exMaster]"
    by (simp add: sqlite_DoExec_query_events [OF GetReturningFromCtx_InjectReturning]
        resolveLink_def exDriver_def commitQuery_def Let_def)
  from a b c d e show ?thesis by simp
qed

subsection \<open>The automatic primary-key fallback\<close>

lemma pgsql_plan_fallback:
  assumes "fallbackApplied d ctx sql"
  shows "len (GetReturningFromCtx ctx) = 0 \<and>
         (\<exists>pk. Value ctx (internalPrimaryKeyInCtx d) = Some (AnyTableField pk) \<and>
               Name pk \<noteq> [] \<and> Contains sql ''INSERT INTO'' \<and>
               pgsql_plan d ctx sql =
                 \<lparr>plan_sql = sql @ '' RETURNING '' @ [dquote] @ Name pk @ [dquote],
                  isUseCoreDoExec = False, isUserReturning = False,
                  primaryKey = Name pk, pkField = pk\<rparr>)"
  using assms
  by (auto simp: fallbackApplied_def pgsql_plan_def Let_def
           split: if_splits option.splits any.splits)

lemma pgsql_plan_fallback_conv:
  assumes "len (GetReturningFromCtx ctx) = 0"
      and "Value ctx (internalPrimaryKeyInCtx d) = Some (AnyTableField pk)"
      and "Name pk \<noteq> []" and "Contains sql ''INSERT INTO''"
  shows "fallbackApplied d ctx sql"
  using assms by (simp add: fallbackApplied_def pgsql_plan_def Let_def)

lemma pgsql_plan_core:
  assumes "len (GetReturningFromCtx ctx) = 0" and "\<not> fallbackApplied d ctx sql"
  shows "isUseCoreDoExec (pgsql_plan d ctx sql) \<and> plan_sql (pgsql_plan d ctx sql) = sql"
  using assms
  by (auto simp: fallbackApplied_def pgsql_plan_def Let_def
           split: if_splits option.splits any.splits)

text \<open>
  C3, as the specification states it, fails: for a table whose only primary-key column
  is a \<open>varchar(36)\<close>, \<open>DoInsert\<close> puts the column into the context and \<open>DoExec\<close> applies
  the fallback to the insert, although the column is not of an integer type.
\<close>

theorem fallbackApplied_varchar_key_counterexample:
  "pgsql_DoInsert_ctx (exDriver None exOut [exUuidKey]) [] ''t''
      \<lparr>opt_InsertOption = InsertOptionDefault, opt_Returning = []\<rparr>
     = Inr [(''primary_key'', AnyTableField exUuidKey)] \<and>
   fallbackApplied (exDriver None exOut [exUuidKey])
      [(''primary_key'', AnyTableField exUuidKey)] exInsert \<and>
   \<not> claimedFallback [] True [exUuidKey]"
  by (simp add: pgsql_DoInsert_ctx_def exDriver_def exUuidKey_def WithValue_def
      fallbackApplied_def pgsql_plan_def GetReturningFromCtx_def Value_def len_def
      ReturningKeyInCtx_def exInsert_def HasPrefix_def claimedFallback_def Let_def)

text \<open>
  C3, amended. \<open>DoExec\<close> applies the fallback if and only if the context holds no returning
  fields of the caller, it holds a primary-key field with a name, and the statement
  contains \<open>INSERT INTO\<close>; neither the type of the column nor the number of primary-key
  columns is asked. \<open>DoInsert\<close> puts the first primary-key field of the table into the
  context for a default insert without returning fields. In every other case without
  returning fields \<open>DoExec\<close> hands the statement and its arguments, unchanged, to
  \<open>Core.DoExec\<close> on the resolved link.
\<close>

theorem fallbackApplied_iff:
  "(fallbackApplied d ctx sql \<longleftrightarrow>
      len (GetReturningFromCtx ctx) = 0 \<and>
      (\<exists>pk. Value ctx (internalPrimaryKeyInCtx d) = Some (AnyTableField pk) \<and>
            Name pk \<noteq> [] \<and> Contains sql ''INSERT INTO'')) \<and>
   (opt_InsertOption option = InsertOptionDefault \<and> opt_Returning option = [] \<and>
    TableFields d ctx table = Inr tfs \<and> firstPrimary tfs = Some pk0 \<longrightarrow>
      pgsql_DoInsert_ctx d ctx table option
        = Inr (WithValue ctx (internalPrimaryKeyInCtx d) (AnyTableField pk0))) \<and>
   (len (GetReturningFromCtx ctx) = 0 \<and> \<not> fallbackApplied d ctx sql \<longrightarrow>
      pgsql_DoExec d ctx link sql args =
        (case resolveLink d ctx link of
           Inl err \<Rightarrow> ([], Inl err)
         | Inr l \<Rightarrow> viaCore d ctx (Some l) sql args))"
proof (intro conjI impI)
  show "fallbackApplied d ctx sql \<longleftrightarrow>
      len (GetReturningFromCtx ctx) = 0 \<and>
      (\<exists>pk. Value ctx (internalPrimaryKeyInCtx d) = Some (AnyTableField pk) \<and>
            Name pk \<noteq> [] \<and> Contains sql ''INSERT INTO'')"
    using pgsql_plan_fallback pgsql_plan_fallback_conv by blast
next
  assume "opt_InsertOption option = InsertOptionDefault \<and> opt_Returning option = [] \<and>
    TableFields d ctx table = Inr tfs \<and> firstPrimary tfs = Some pk0"
  then show "pgsql_DoInsert_ctx d ctx table option
        = Inr (WithValue ctx (internalPrimaryKeyInCtx d) (AnyTableField pk0))"
    by (simp add: pgsql_DoInsert_ctx_def)
next
  assume "len (GetReturningFromCtx ctx) = 0 \<and> \<not> fallbackApplied d ctx sql"
  then have "isUseCoreDoExec (pgsql_plan d ctx sql)" "plan_sql (pgsql_plan d ctx sql) = sql"
    using pgsql_plan_core by blast+
  then show "pgsql_DoExec d ctx link sql args =
        (case resolveLink d ctx link of
           Inl err \<Rightarrow> ([], Inl err)
         | Inr l \<Rightarrow> viaCore d ctx (Some l) sql args)"
    by (simp add: pgsql_DoExec_def Let_def split: sum.splits)
qed

theorem fallbackApplied_iff_witness:
  "fallbackApplied (exDriver None exOut [exUuidKey])
      [(''primary_key'', AnyTableField exUuidKey)] exInsert \<and>
   pgsql_DoInsert_ctx (exDriver None exOut [exUuidKey]) [] ''t''
      \<lparr>opt_InsertOption = InsertOptionDefault, opt_Returning = []\<rparr>
     = Inr [(''primary_key'', AnyTableField exUuidKey)] \<and>
   pgsql_DoExec (exDriver None exOut [exUuidKey]) [] None ''UPDATE t SET a = ?'' [VInt 1]
     = ([EvCoreDoExec (Some exMaster) ''UPDATE t SET a = ?'' [VInt 1]], Inr (CoreResult exNative))"
proof -
  note th = fallbackApplied_iff
  have pk: "Value [(''primary_key'', AnyTableField exUuidKey)]
              (internalPrimaryKeyInCtx (exDriver None exOut [exUuidKey]))
            = Some (AnyTableField exUuidKey)"
    by (simp add: Value_def exDriver_def)
  have noret: "len (GetReturningFromCtx [(''primary_key'', AnyTableField exUuidKey)]) = 0"
    by (simp add: GetReturningFromCtx_def Value_def ReturningKeyInCtx_def len_def)
  have ins: "Contains exInsert ''INSERT INTO''"
    by (simp add: exInsert_def HasPrefix_def)
  have name: "Name exUuidKey \<noteq> []"
    by (simp add: exUuidKey_def)
  have a: "fallbackApplied (exDriver None exOut [exUuidKey])
             [(''primary_key'', AnyTableField exUuidKey)] exInsert"
    using th [where d = "exDriver None exOut [exUuidKey]"
                and ctx = "[(''primary_key'', AnyTableField exUuidKey)]" and sql = exInsert]
          pk noret ins name
    by blast
  have b: "pgsql_DoInsert_ctx (exDriver None exOut [exUuidKey]) [] ''t''
      \<lparr>opt_InsertOption = InsertOptionDefault, opt_Returning = []\<rparr>
     = Inr [(''primary_key'', AnyTableField exUuidKey)]"
    using th [where option = "\<lparr>opt_InsertOption = InsertOptionDefault, opt_Returning = []\<rparr>"
                and d = "exDriver None exOut [exUuidKey]" and ctx = "[]" and table = "''t''"
                and tfs = "[exUuidKey]" and ?pk0.0 = exUuidKey]
    by (simp add: exDriver_def exUuidKey_def WithValue_def)
  have noret0: "len (GetReturningFromCtx []) = 0"
    by (simp add: GetReturningFromCtx_def Value_def len_def)
  have nofb: "\<not> fallbackApplied (exDriver None exOut [exUuidKey]) [] ''UPDATE t SET a = ?''"
    by (simp add: fallbackApplied_def pgsql_plan_def GetReturningFromCtx_def Value_def len_def
        Let_def)
  have c: "pgsql_DoExec (exDriver None exOut [exUuidKey]) [] None ''UPDATE t SET a = ?'' [VInt 1]
     = ([EvCoreDoExec (Some exMaster) ''UPDATE t SET a = ?'' [VInt 1]], Inr (CoreResult exNative))"
    using th [where d = "exDriver None exOut [exUuidKey]" and ctx = "[]"
                and sql = "''UPDATE t SET a = ?''" and link = None and args = "[VInt 1]"]
          noret0 nofb
    by (simp add: resolveLink_def exDriver_def viaCore_def)
  from a b c show ?thesis by simp
qed





subsection \<open>Explicit requests on a dialect without a returning clause\<close>

lemma scanReturning_plain:
  assumes "SqlResultToReturning res = None"
  shows "scanReturning ops t (Inr res) = Some (NewCode CodeNotSupported t)"
  using assms by (simp add: scanReturning_def)





subsection \<open>The Materializer\<close>

lemma bindElement_other: "a \<noteq> bindToAttr b \<Longrightarrow> bindElement b rows e a = e a"
  by (simp add: bindElement_def split: cardinality.splits list.splits)

text \<open>
  C9. A call of \<open>ScanList\<close> keeps the elements of the destination, in number and in
  place, and changes none of their attributes but the one it binds: what an earlier call
  bound to another attribute of an element is still there after a later call.
\<close>

theorem ScanList_keeps_other_attributes:
  assumes "a \<noteq> bindToAttr b" and "i < length dest"
  shows "length (ScanList dest rows b) = length dest \<and>
         (ScanList dest rows b ! i) a = (dest ! i) a"
  using assms by (simp add: ScanList_def bindElement_other)

theorem ScanList_keeps_other_attributes_witness:
  "''Many'' \<noteq> bindToAttr bindOne \<and>
   0 < length (ScanList (ScanList_create [john, smith] ''One'') [child100, child200] bindMany) \<and>
   (ScanList (ScanList_create [john, smith] ''One'') [child100, child200] bindMany ! 0) ''Many''
     = Some (Many [child100, child200]) \<and>
   (ScanList (ScanList_create [john, smith] ''One'') [child100, child200] bindMany ! 1) ''Many''
     = Some (Many []) \<and>
   (ScanList (ScanList (ScanList_create [john, smith] ''One'') [child100, child200] bindMany)
       [john, smith] bindOne ! 0) ''Many''
     = Some (Many [child100, child200])"
proof -
  let ?dest = "ScanList (ScanList_create [john, smith] ''One'') [child100, child200] bindMany"
  have a: "''Many'' \<noteq> bindToAttr bindOne"
    by (simp add: bindOne_def)
  have n: "0 < length ?dest"
    by (simp add: ScanList_def ScanList_create_def)
  have m: "(?dest ! 0) ''Many'' = Some (Many [child100, child200])"
    by (simp add: ScanList_def ScanList_create_def bindElement_def relatedRows_def bindMany_def
        john_def child100_def child200_def)
  have m1: "(?dest ! 1) ''Many'' = Some (Many [])"
    by (simp add: ScanList_def ScanList_create_def bindElement_def relatedRows_def bindMany_def
        smith_def child100_def child200_def)
  from ScanList_keeps_other_attributes [OF a n, of "[john, smith]"] m
  have "(ScanList ?dest [john, smith] bindOne ! 0) ''Many'' = Some (Many [child100, child200])"
    by simp
  with a n m m1 show ?thesis by simp
qed

end
